theory Spec2Isabelle
  imports Complex_Main
begin

section \<open>The network map of \<^verbatim>\<open>map.js\<close>: data model\<close>

text \<open>
  A shallow embedding of the class \<^verbatim>\<open>NetworkMap\<close>.  JavaScript numbers are read as real
  numbers (no rounding, no NaN), a field that may be absent from the feed is an
  \<open>option\<close>, and the expression \<^verbatim>\<open>v || d\<close> on a number takes \<open>d\<close> when \<open>v\<close> is absent or
  zero.
\<close>

type_synonym point = "real \<times> real"

datatype js_error = TypeError

datatype 'a outcome = Done 'a | Threw js_error 'a

fun state_of :: "'a outcome \<Rightarrow> 'a" where
  "state_of (Done s) = s"
| "state_of (Threw e s) = s"

fun threw :: "'a outcome \<Rightarrow> bool" where
  "threw (Done s) = False"
| "threw (Threw e s) = True"

definition or_num :: "real option \<Rightarrow> real \<Rightarrow> real" where
  "or_num v d = (case v of None \<Rightarrow> d | Some x \<Rightarrow> if x = 0 then d else x)"

definition or_str :: "string option \<Rightarrow> string \<Rightarrow> string" where
  "or_str v d = (case v of None \<Rightarrow> d | Some x \<Rightarrow> if x = [] then d else x)"

record location =
  lat :: real
  lon :: real
  city :: string
  region :: string

record supplier_metrics =
  on_time_rate :: real
  orders_delivered :: real

text \<open>
  The attribute map \<^verbatim>\<open>node.state\<close> is free-form: a list of entries in the order of
  \<^verbatim>\<open>Object.entries\<close>.  An array is kept by its length (only \<^verbatim>\<open>.length\<close> is read), the
  object \<^verbatim>\<open>supplier_relationships\<close> by its entries, any other nested object is opaque.
  A field is read through a typed accessor; \<^verbatim>\<open>null\<close> is not modelled.
\<close>

datatype js_value =
    JNum real
  | JStr string
  | JBool bool
  | JArr nat
  | JRels "(string \<times> supplier_metrics) list"
  | JObj

record node =
  node_id :: string
  node_type :: string
  node_name :: string
  node_location :: location
  node_state :: "(string \<times> js_value) list"
  sourcing_policy_type :: "string option"

definition num_field :: "node \<Rightarrow> string \<Rightarrow> real option" where
  "num_field n k = (case map_of (node_state n) k of Some (JNum r) \<Rightarrow> Some r | _ \<Rightarrow> None)"

definition len_field :: "node \<Rightarrow> string \<Rightarrow> nat option" where
  "len_field n k = (case map_of (node_state n) k of Some (JArr l) \<Rightarrow> Some l | _ \<Rightarrow> None)"

definition rels_field :: "node \<Rightarrow> (string \<times> supplier_metrics) list option" where
  "rels_field n =
     (case map_of (node_state n) ''supplier_relationships'' of
        Some (JRels r) \<Rightarrow> Some r | _ \<Rightarrow> None)"

record delivery =
  order_id :: string
  start_time :: "real option"
  duration :: "real option"

record edge =
  from_id :: string
  to_id :: string
  edge_type :: string
  active_orders :: int
  deliveries :: "delivery list option"

record particle =
  p_edge :: edge
  p_delivery :: delivery
  deliveryIndex :: nat
  p_key :: string

record snapshot =
  s_time :: "real option"
  s_running :: "bool option"
  s_nodes :: "node list option"
  s_edges :: "edge list option"

section \<open>Flow particles: progress and position\<close>

text \<open>
  The body of \<^verbatim>\<open>allFlows.each\<close> in \<^verbatim>\<open>renderOrderFlows\<close>.  \<open>flow_progress t d\<close> is the
  variable \<^verbatim>\<open>progress\<close> at simulation time \<open>t\<close>.
\<close>

definition deliveryStartTime :: "delivery \<Rightarrow> real" where
  "deliveryStartTime d = or_num (start_time d) 0"

definition deliveryDuration :: "delivery \<Rightarrow> real" where
  "deliveryDuration d = or_num (duration d) 10"

definition flow_progress :: "real \<Rightarrow> delivery \<Rightarrow> real" where
  "flow_progress t d =
     (if deliveryDuration d > 0
      then max 0 (min 1 ((t - deliveryStartTime d) / deliveryDuration d))
      else 0)"

text \<open>\<^verbatim>\<open>Math.atan2(y, x)\<close> on real numbers (signed zeros are not told apart).\<close>

definition atan2 :: "real \<Rightarrow> real \<Rightarrow> real" where
  "atan2 y x =
     (if 0 < x then arctan (y / x)
      else if x < 0 then (if 0 \<le> y then arctan (y / x) + pi else arctan (y / x) - pi)
      else if 0 < y then pi / 2
      else if y < 0 then - (pi / 2)
      else 0)"

definition offsetAmount :: "nat \<Rightarrow> real" where
  "offsetAmount i = real (i mod 3) - 1"

text \<open>
  The position set on the circle, from the projected end points of the edge; \<open>None\<close>
  is the early \<^verbatim>\<open>return\<close> on \<^verbatim>\<open>!x1 || !x2\<close>, which leaves the circle as it was.
\<close>

definition flow_xy :: "point \<Rightarrow> point \<Rightarrow> real \<Rightarrow> nat \<Rightarrow> point option" where
  "flow_xy p1 p2 progress i =
     (let x1 = fst p1; y1 = snd p1; x2 = fst p2; y2 = snd p2 in
      if x1 = 0 \<or> x2 = 0 then None
      else
        let x = x1 + progress * (x2 - x1);
            y = y1 + progress * (y2 - y1);
            angle = atan2 (y2 - y1) (x2 - x1);
            perpAngle = angle + pi / 2
        in Some (x + cos perpAngle * offsetAmount i, y + sin perpAngle * offsetAmount i))"

section \<open>Edge attributes\<close>

definition edge_key :: "edge \<Rightarrow> string" where
  "edge_key d = edge_type d @ ''-'' @ from_id d @ ''-'' @ to_id d"

definition edge_stroke :: "edge \<Rightarrow> string" where
  "edge_stroke d =
     (if edge_type d = ''structural'' then ''rgba(100, 100, 100, 0.2)''
      else if edge_type d = ''order_placement'' then ''rgba(59, 130, 246, 0.7)''
      else ''rgba(239, 68, 68, 0.7)'')"

definition edge_stroke_width :: "edge \<Rightarrow> real" where
  "edge_stroke_width d =
     (if edge_type d = ''structural'' then 1
      else if active_orders d > 0 then 2 else 1)"

definition edge_stroke_opacity :: "edge \<Rightarrow> real" where
  "edge_stroke_opacity d = (if active_orders d > 0 then 0.6 else 0.2)"

section \<open>Node attributes\<close>






definition node_fill :: "node \<Rightarrow> string" where
  "node_fill d =
     (if node_type d = ''manufacturing_center'' then ''rgba(16, 185, 129, 0.7)''
      else ''rgba(139, 92, 246, 0.7)'')"

section \<open>Tooltip and detail panel content\<close>

text \<open>
  The markup built by \<^verbatim>\<open>updateTooltip\<close> and \<^verbatim>\<open>updateDetailsPanel\<close> is kept as the list
  of its parts, one per \<^verbatim>\<open>content +=\<close> or \<^verbatim>\<open>stateHTML +=\<close> that interpolates a value,
  in the order in which they are appended.  A number is kept as the number handed to
  \<^verbatim>\<open>toFixed\<close>; the digits printed are not modelled.
\<close>

datatype tip_line =
    TipName string
  | TipType string
  | TipLocation string string
  | TipInventory real
  | TipProduction real
  | TipPendingOrders nat
  | TipFinancial
  | TipRevenue real
  | TipCosts real
  | TipProfit real real
  | TipOrdersPlaced real
  | TipSourcing
  | TipPolicy string
  | TipTopSuppliers
  | TipSupplier string real
  | TipNoHistory

datatype detail_item =
    DetFinancial
  | DetRevenue real
  | DetCosts real
  | DetProfit real real
  | DetSourcing
  | DetPolicy string
  | DetSuppliers
  | DetSupplier string real string real
  | DetNoSuppliers
  | DetLength string "nat option"
  | DetNumber string real
  | DetText string js_value

record tooltip_el =
  tip_html :: "tip_line list"
  tip_left :: real
  tip_top :: real

record details_panel =
  panel_display :: string
  detail_node_name :: string
  detail_node_type :: string
  detail_node_location :: string
  detail_node_state :: "detail_item list"

section \<open>The state of a \<^verbatim>\<open>NetworkMap\<close> and of the document\<close>

text \<open>
  The fields of the object, followed by the part of the document it draws into.  A layer
  of drawn elements is the list of the data bound to its elements (\<^verbatim>\<open>__data__\<close>), in
  the order of the merged selection; the attributes of an element are the values of the
  attribute callbacks defined here.  \<open>tooltip\<close> and \<open>node_details\<close> are \<open>None\<close> when the
  document has no element \<^verbatim>\<open>#tooltip\<close> or \<^verbatim>\<open>#node-details\<close>.  \<open>dom_ops\<close> records every
  element appended to or removed from a layer.
\<close>

datatype layer = Lines | Flows | NodeGroups | Labels

datatype dom_op = Created layer string | Removed layer string

record network_map =
  nodes :: "node list"
  edges :: "edge list"
  hoveredNode :: "node option"
  selectedNode :: "node option"
  isRunning :: bool
  currentTime :: real
  projection :: "real \<times> real \<Rightarrow> point option"
  edge_lines :: "edge list"
  flow_circles :: "particle list"
  node_groups :: "node list"
  labels :: "node list"
  tooltip :: "tooltip_el option"
  node_details :: "details_panel option"
  dom_ops :: "dom_op list"

text \<open>
  The constructor and \<^verbatim>\<open>init\<close>: no nodes, no edges, nothing hovered or selected, empty
  layers, no tooltip.  The projection and the detail panel of the page are parameters.
  The constructor does not assign \<^verbatim>\<open>currentTime\<close>, which is read only for particles, that
  is after a snapshot has set it; it is 0 here.
\<close>

definition init_map ::
  "(real \<times> real \<Rightarrow> point option) \<Rightarrow> details_panel option \<Rightarrow> network_map" where
  "init_map proj panel =
     \<lparr>nodes = [], edges = [], hoveredNode = None, selectedNode = None, isRunning = False,
      currentTime = 0, projection = proj, edge_lines = [], flow_circles = [],
      node_groups = [], labels = [], tooltip = None, node_details = panel, dom_ops = []\<rparr>"

definition project_node :: "network_map \<Rightarrow> node \<Rightarrow> point option" where
  "project_node m d = projection m (lon (node_location d), lat (node_location d))"

definition getNodeProjection :: "network_map \<Rightarrow> string \<Rightarrow> point" where
  "getNodeProjection m nodeId =
     (case find (\<lambda>n. node_id n = nodeId) (nodes m) of
        None \<Rightarrow> (0, 0)
      | Some node \<Rightarrow> (case project_node m node of None \<Rightarrow> (0, 0) | Some p \<Rightarrow> p))"

definition flow_position :: "network_map \<Rightarrow> particle \<Rightarrow> point option" where
  "flow_position m d =
     flow_xy (getNodeProjection m (from_id (p_edge d)))
             (getNodeProjection m (to_id (p_edge d)))
             (flow_progress (currentTime m) (p_delivery d))
             (deliveryIndex d)"

definition edge_x1y1 :: "network_map \<Rightarrow> edge \<Rightarrow> point" where
  "edge_x1y1 m d = getNodeProjection m (from_id d)"

definition edge_x2y2 :: "network_map \<Rightarrow> edge \<Rightarrow> point" where
  "edge_x2y2 m d = getNodeProjection m (to_id d)"

definition node_stroke :: "network_map \<Rightarrow> node \<Rightarrow> string" where
  "node_stroke m d =
     (case selectedNode m of
        Some s \<Rightarrow> if node_id d = node_id s then ''#fff'' else ''none''
      | None \<Rightarrow> ''none'')"

definition node_stroke_width :: "network_map \<Rightarrow> node \<Rightarrow> real" where
  "node_stroke_width m d =
     (case selectedNode m of
        Some s \<Rightarrow> if node_id d = node_id s then 3 else 0
      | None \<Rightarrow> 0)"

definition takeWhile_word :: "string \<Rightarrow> string" where
  "takeWhile_word s = takeWhile (\<lambda>c. c \<noteq> CHR '' '') s"

text \<open>\<^verbatim>\<open>s.replace(pat, rep)\<close> with a string pattern: the first occurrence only.\<close>

fun replace_first :: "string \<Rightarrow> string \<Rightarrow> string \<Rightarrow> string" where
  "replace_first pat rep [] = (if pat = [] then rep else [])"
| "replace_first pat rep (c # cs) =
     (if take (length pat) (c # cs) = pat then rep @ drop (length pat) (c # cs)
      else c # replace_first pat rep cs)"

definition label_text :: "node \<Rightarrow> string" where
  "label_text d =
     (if node_type d = ''manufacturing_center'' then takeWhile_word (node_name d)
      else replace_first '' Distributor'' [] (node_name d))"

section \<open>The keyed data join\<close>

text \<open>
  \<^verbatim>\<open>selection.data(data, key)\<close> of the library d3, version 7, which every renderer calls.
  \<open>index_group\<close> is its first loop (the first element of each key is indexed, a later
  element with the same key leaves), \<open>bind_data\<close> its second (a datum takes the indexed
  element of its key out of the index and updates it, or enters), \<open>exit_group\<close> the
  elements that leave: those of the first loop and those still indexed after the second.
  A slot pairs a datum with the datum its element was bound to before, \<open>None\<close> for an
  entering datum.
\<close>

fun index_group :: "('d \<Rightarrow> string) \<Rightarrow> 'd list \<Rightarrow> (string \<rightharpoonup> 'd) \<Rightarrow> (string \<rightharpoonup> 'd)" where
  "index_group key [] m = m"
| "index_group key (n # ns) m =
     index_group key ns (if m (key n) = None then m(key n \<mapsto> n) else m)"

fun bind_data ::
  "('d \<Rightarrow> string) \<Rightarrow> 'd list \<Rightarrow> (string \<rightharpoonup> 'd) \<Rightarrow> ('d \<times> 'd option) list \<times> (string \<rightharpoonup> 'd)" where
  "bind_data key [] m = ([], m)"
| "bind_data key (d # ds) m =
     (case m (key d) of
        Some n \<Rightarrow>
          (let (sl, m') = bind_data key ds (m(key d := None)) in ((d, Some n) # sl, m'))
      | None \<Rightarrow>
          (let (sl, m') = bind_data key ds m in ((d, None) # sl, m')))"

fun exit_group :: "('d \<Rightarrow> string) \<Rightarrow> 'd list \<Rightarrow> string list \<Rightarrow> (string \<rightharpoonup> 'd) \<Rightarrow> 'd list" where
  "exit_group key [] seen m' = []"
| "exit_group key (n # ns) seen m' =
     (if key n \<in> set seen \<or> m' (key n) \<noteq> None
      then n # exit_group key ns (key n # seen) m'
      else exit_group key ns (key n # seen) m')"

record 'd data_join =
  slots :: "('d \<times> 'd option) list"
  exit_sel :: "'d list"

definition bindKey :: "('d \<Rightarrow> string) \<Rightarrow> 'd list \<Rightarrow> 'd list \<Rightarrow> 'd data_join" where
  "bindKey key els data =
     (let nodeByKeyValue = index_group key els Map.empty;
          (sl, m') = bind_data key data nodeByKeyValue
      in \<lparr>slots = sl, exit_sel = exit_group key els [] m'\<rparr>)"

definition enter_sel :: "'d data_join \<Rightarrow> 'd list" where
  "enter_sel j = map fst (filter (\<lambda>s. snd s = None) (slots j))"

definition update_sel :: "'d data_join \<Rightarrow> 'd list" where
  "update_sel j = map fst (filter (\<lambda>s. snd s \<noteq> None) (slots j))"

definition merged :: "'d data_join \<Rightarrow> 'd list" where
  "merged j = map fst (slots j)"

section \<open>Rendering\<close>

text \<open>\<^verbatim>\<open>edge.deliveries || []\<close>\<close>

definition edge_deliveries :: "edge \<Rightarrow> delivery list" where
  "edge_deliveries edge = (case deliveries edge of None \<Rightarrow> [] | Some ds \<Rightarrow> ds)"

definition edge_particles :: "edge \<Rightarrow> particle list" where
  "edge_particles edge =
     map (\<lambda>(index, delivery).
            \<lparr>p_edge = edge, p_delivery = delivery, deliveryIndex = index,
             p_key = order_id delivery\<rparr>)
         (enumerate 0 (edge_deliveries edge))"

definition deliveryParticles :: "edge list \<Rightarrow> particle list" where
  "deliveryParticles es =
     (let activeEdges = filter (\<lambda>d. edge_type d = ''delivery'' \<and> active_orders d > 0) es
      in concat (map edge_particles activeEdges))"

text \<open>The elements appended by \<^verbatim>\<open>enter().append\<close> and removed by \<^verbatim>\<open>exit().remove()\<close>.\<close>

definition created_ops :: "layer \<Rightarrow> ('d \<Rightarrow> string) \<Rightarrow> 'd data_join \<Rightarrow> dom_op list" where
  "created_ops l key j = map (\<lambda>d. Created l (key d)) (enter_sel j)"

definition removed_ops :: "layer \<Rightarrow> ('d \<Rightarrow> string) \<Rightarrow> 'd data_join \<Rightarrow> dom_op list" where
  "removed_ops l key j = map (\<lambda>d. Removed l (key d)) (exit_sel j)"

definition renderOrderFlows :: "network_map \<Rightarrow> network_map" where
  "renderOrderFlows m =
     (let flows = bindKey p_key (flow_circles m) (deliveryParticles (edges m))
      in m\<lparr>flow_circles := merged flows,
            dom_ops := dom_ops m @ created_ops Flows p_key flows
                                 @ removed_ops Flows p_key flows\<rparr>)"

definition renderEdges :: "network_map \<Rightarrow> network_map" where
  "renderEdges m =
     (let edgeLines = bindKey edge_key (edge_lines m) (edges m)
      in renderOrderFlows
           (m\<lparr>edge_lines := merged edgeLines,
               dom_ops := dom_ops m @ created_ops Lines edge_key edgeLines
                                    @ removed_ops Lines edge_key edgeLines\<rparr>))"

text \<open>
  \<^verbatim>\<open>renderLabels\<close> and \<^verbatim>\<open>renderNodes\<close> read \<^verbatim>\<open>this.projection(...)\<close> with no test for
  \<^verbatim>\<open>null\<close>: indexing or destructuring \<^verbatim>\<open>null\<close> throws a TypeError, after the entering
  elements were appended and before the leaving ones are removed.
\<close>

definition unprojectable :: "network_map \<Rightarrow> bool" where
  "unprojectable m = list_ex (\<lambda>d. project_node m d = None) (nodes m)"

definition renderLabels :: "network_map \<Rightarrow> network_map outcome" where
  "renderLabels m =
     (let lbls = bindKey node_id (labels m) (nodes m);
          m1 = m\<lparr>labels := merged lbls @ exit_sel lbls,
                  dom_ops := dom_ops m @ created_ops Labels node_id lbls\<rparr>
      in if unprojectable m then Threw TypeError m1
         else Done (m1\<lparr>labels := merged lbls,
                        dom_ops := dom_ops m1 @ removed_ops Labels node_id lbls\<rparr>))"

definition renderNodes :: "network_map \<Rightarrow> network_map outcome" where
  "renderNodes m =
     (let nodeGroups = bindKey node_id (node_groups m) (nodes m);
          m1 = m\<lparr>node_groups := merged nodeGroups @ exit_sel nodeGroups,
                  dom_ops := dom_ops m @ created_ops NodeGroups node_id nodeGroups\<rparr>
      in if unprojectable m then Threw TypeError m1
         else renderLabels
                (m1\<lparr>node_groups := merged nodeGroups,
                    dom_ops := dom_ops m1 @ removed_ops NodeGroups node_id nodeGroups\<rparr>))"

section \<open>Tooltip and detail panel\<close>

definition revenue :: "node \<Rightarrow> real" where
  "revenue n = or_num (num_field n ''total_revenue'') 0"

definition totalCosts :: "node \<Rightarrow> real" where
  "totalCosts n =
     (let prodCosts = or_num (num_field n ''total_production_costs'') 0;
          rateCosts = or_num (num_field n ''total_rate_change_costs'') 0
      in prodCosts + rateCosts)"

definition profit :: "node \<Rightarrow> real" where
  "profit n = revenue n - totalCosts n"

definition profitMargin :: "node \<Rightarrow> real" where
  "profitMargin n = (if revenue n > 0 then profit n / revenue n * 100 else 0)"

definition sourcingPolicy :: "node \<Rightarrow> string" where
  "sourcingPolicy n = or_str (sourcing_policy_type n) ''nearest_neighbor''"

definition relationships :: "node \<Rightarrow> (string \<times> supplier_metrics) list" where
  "relationships n = (case rels_field n of None \<Rightarrow> [] | Some r \<Rightarrow> r)"

text \<open>
  \<^verbatim>\<open>.sort((a, b) => b[1].orders_delivered - a[1].orders_delivered)\<close>: a stable sort,
  most orders delivered first.
\<close>

definition sortedSuppliers :: "node \<Rightarrow> (string \<times> supplier_metrics) list" where
  "sortedSuppliers n = sort_key (\<lambda>e. - orders_delivered (snd e)) (relationships n)"

definition supplierName :: "node list \<Rightarrow> string \<Rightarrow> string" where
  "supplierName ns supplierId =
     (case find (\<lambda>n. node_id n = supplierId) ns of
        Some supplierNode \<Rightarrow> city (node_location supplierNode)
      | None \<Rightarrow> supplierId)"

definition tooltip_content :: "node list \<Rightarrow> node \<Rightarrow> tip_line list" where
  "tooltip_content ns node =
     [TipName (node_name node), TipType (node_type node),
      TipLocation (city (node_location node)) (region (node_location node))]
     @ (if node_type node = ''manufacturing_center'' then
          (case num_field node ''inventory'' of None \<Rightarrow> [] | Some v \<Rightarrow> [TipInventory v])
          @ (case num_field node ''production_rate'' of None \<Rightarrow> [] | Some v \<Rightarrow> [TipProduction v])
          @ (case len_field node ''pending_orders'' of None \<Rightarrow> [] | Some l \<Rightarrow> [TipPendingOrders l])
          @ [TipFinancial, TipRevenue (revenue node), TipCosts (totalCosts node),
             TipProfit (profit node) (profitMargin node)]
        else [])
     @ (if node_type node = ''distributor'' then
          (case num_field node ''orders_placed'' of None \<Rightarrow> [] | Some v \<Rightarrow> [TipOrdersPlaced v])
          @ [TipSourcing, TipPolicy (sourcingPolicy node)]
          @ (let top = take 2 (sortedSuppliers node) in
             if length top > 0 then
               TipTopSuppliers #
               map (\<lambda>(supplierId, metrics).
                      TipSupplier (supplierName ns supplierId) (on_time_rate metrics * 100)) top
             else [TipNoHistory])
        else [])"

definition updateTooltip :: "network_map \<Rightarrow> node \<Rightarrow> network_map" where
  "updateTooltip m node =
     (case tooltip m of
        None \<Rightarrow> m
      | Some tt \<Rightarrow> m\<lparr>tooltip := Some (tt\<lparr>tip_html := tooltip_content (nodes m) node\<rparr>)\<rparr>)"

definition showTooltip :: "network_map \<Rightarrow> real \<times> real \<Rightarrow> node \<Rightarrow> network_map" where
  "showTooltip m page node =
     updateTooltip
       (m\<lparr>hoveredNode := Some node,
           tooltip := Some \<lparr>tip_html = [], tip_left = fst page + 10, tip_top = snd page - 10\<rparr>\<rparr>)
       node"

definition hideTooltip :: "network_map \<Rightarrow> network_map" where
  "hideTooltip m = m\<lparr>hoveredNode := None, tooltip := None\<rparr>"

definition supplier_color :: "real \<Rightarrow> string" where
  "supplier_color r = (if r \<ge> 0.9 then ''#10b981'' else if r \<ge> 0.7 then ''#f59e0b'' else ''#ef4444'')"

definition js_length :: "js_value \<Rightarrow> nat option" where
  "js_length v = (case v of JArr l \<Rightarrow> Some l | JStr s \<Rightarrow> Some (length s) | _ \<Rightarrow> None)"

fun state_items :: "(string \<times> js_value) list \<Rightarrow> detail_item list" where
  "state_items [] = []"
| "state_items ((key, v) # es) =
     (if key \<in> set [''total_revenue'', ''total_production_costs'', ''total_rate_change_costs'',
                    ''supplier_relationships'', ''fulfillment_times'', ''orders_in_delivery'']
      then state_items es
      else if key = ''pending_orders'' \<or> key = ''in_delivery''
      then DetLength key (js_length v) # state_items es
      else (case v of
              JNum r \<Rightarrow> DetNumber key r # state_items es
            | JArr l \<Rightarrow> state_items es
            | JRels r \<Rightarrow> state_items es
            | JObj \<Rightarrow> state_items es
            | _ \<Rightarrow> DetText key v # state_items es))"

definition details_state :: "node list \<Rightarrow> node \<Rightarrow> detail_item list" where
  "details_state ns node =
     (if node_type node = ''manufacturing_center'' then
        [DetFinancial, DetRevenue (revenue node), DetCosts (totalCosts node),
         DetProfit (profit node) (profitMargin node)]
      else [])
     @ (if node_type node = ''distributor'' then
          [DetSourcing, DetPolicy (sourcingPolicy node)]
          @ (let sorted = sortedSuppliers node in
             if length sorted > 0 then
               DetSuppliers #
               map (\<lambda>(supplierId, metrics).
                      DetSupplier (supplierName ns supplierId) (on_time_rate metrics * 100)
                        (supplier_color (on_time_rate metrics)) (orders_delivered metrics)) sorted
             else [DetNoSuppliers])
        else [])
     @ state_items (node_state node)"

definition panel_content :: "node list \<Rightarrow> node \<Rightarrow> details_panel" where
  "panel_content ns node =
     \<lparr>panel_display = ''block'',
      detail_node_name = node_name node,
      detail_node_type = replace_first ''_'' '' '' (node_type node),
      detail_node_location = city (node_location node) @ '', '' @ region (node_location node),
      detail_node_state = details_state ns node\<rparr>"

definition updateDetailsPanel :: "network_map \<Rightarrow> node \<Rightarrow> network_map" where
  "updateDetailsPanel m node =
     (case node_details m of
        None \<Rightarrow> m
      | Some panel \<Rightarrow> m\<lparr>node_details := Some (panel_content (nodes m) node)\<rparr>)"

definition hideDetailsPanel :: "network_map \<Rightarrow> network_map" where
  "hideDetailsPanel m =
     (case node_details m of
        None \<Rightarrow> m
      | Some panel \<Rightarrow> m\<lparr>node_details := Some (panel\<lparr>panel_display := ''none''\<rparr>)\<rparr>)"

definition selectNode :: "network_map \<Rightarrow> node option \<Rightarrow> network_map outcome" where
  "selectNode m node =
     (case renderNodes (m\<lparr>selectedNode := node\<rparr>) of
        Threw e m' \<Rightarrow> Threw e m'
      | Done m' \<Rightarrow>
          Done (case node of Some n \<Rightarrow> updateDetailsPanel m' n | None \<Rightarrow> hideDetailsPanel m'))"

section \<open>Applying a snapshot\<close>

text \<open>\<^verbatim>\<open>state.nodes || []\<close> and \<^verbatim>\<open>state.edges || []\<close>\<close>

definition snapshot_nodes :: "snapshot \<Rightarrow> node list" where
  "snapshot_nodes st = (case s_nodes st of None \<Rightarrow> [] | Some ns \<Rightarrow> ns)"

definition snapshot_edges :: "snapshot \<Rightarrow> edge list" where
  "snapshot_edges st = (case s_edges st of None \<Rightarrow> [] | Some es \<Rightarrow> es)"

definition store_snapshot :: "network_map \<Rightarrow> snapshot \<Rightarrow> network_map" where
  "store_snapshot m st =
     m\<lparr>nodes := snapshot_nodes st,
       edges := snapshot_edges st,
       isRunning := (case s_running st of None \<Rightarrow> False | Some r \<Rightarrow> r),
       currentTime := or_num (s_time st) 0\<rparr>"

definition refresh_hover :: "network_map \<Rightarrow> network_map" where
  "refresh_hover m =
     (case hoveredNode m of
        None \<Rightarrow> m
      | Some h \<Rightarrow>
          (case find (\<lambda>n. node_id n = node_id h) (nodes m) of
             None \<Rightarrow> m
           | Some updatedNode \<Rightarrow> updateTooltip m updatedNode))"

definition refresh_selection :: "network_map \<Rightarrow> network_map" where
  "refresh_selection m =
     (case selectedNode m of
        None \<Rightarrow> m
      | Some s \<Rightarrow>
          (case find (\<lambda>n. node_id n = node_id s) (nodes m) of
             None \<Rightarrow> m
           | Some updatedNode \<Rightarrow> updateDetailsPanel m updatedNode))"

definition update :: "network_map \<Rightarrow> snapshot \<Rightarrow> network_map outcome" where
  "update m st =
     (case renderNodes (renderEdges (store_snapshot m st)) of
        Threw e m' \<Rightarrow> Threw e m'
      | Done m' \<Rightarrow> Done (refresh_selection (refresh_hover m')))"

section \<open>Share-based sizing, as the specification words it\<close>








text \<open>The supplier entries of a detail panel and of a tooltip, in the order shown.\<close>

fun detail_suppliers :: "detail_item list \<Rightarrow> (string \<times> real \<times> string \<times> real) list" where
  "detail_suppliers [] = []"
| "detail_suppliers (DetSupplier n p c k # xs) = (n, p, c, k) # detail_suppliers xs"
| "detail_suppliers (x # xs) = detail_suppliers xs"

fun tip_suppliers :: "tip_line list \<Rightarrow> (string \<times> real) list" where
  "tip_suppliers [] = []"
| "tip_suppliers (TipSupplier n p # xs) = (n, p) # tip_suppliers xs"
| "tip_suppliers (x # xs) = tip_suppliers xs"

section \<open>Example data\<close>

text \<open>
  A small network used to evaluate the functions: a projection that is defined on a
  rectangle of longitudes and latitudes only, two manufacturing centers with production
  rates 10 and 30, and one delivery edge between them carrying one delivery.
\<close>

definition demo_projection :: "real \<times> real \<Rightarrow> point option" where
  "demo_projection c =
     (if - 125 \<le> fst c \<and> fst c \<le> - 65 \<and> 25 \<le> snd c \<and> snd c \<le> 50
      then Some ((fst c + 125) * 10, (50 - snd c) * 10) else None)"

definition demo_node ::
  "string \<Rightarrow> string \<Rightarrow> real \<Rightarrow> real \<Rightarrow> (string \<times> js_value) list \<Rightarrow> node" where
  "demo_node i ty lo la st =
     \<lparr>node_id = i, node_type = ty, node_name = i,
      node_location = \<lparr>lat = la, lon = lo, city = i, region = ''IL''\<rparr>,
      node_state = st, sourcing_policy_type = None\<rparr>"

definition demo_A :: node where
  "demo_A = demo_node ''A'' ''manufacturing_center'' (- 115) 40 [(''production_rate'', JNum 10)]"

definition demo_B :: node where
  "demo_B = demo_node ''B'' ''manufacturing_center'' (- 105) 40 [(''production_rate'', JNum 30)]"

definition demo_delivery :: delivery where
  "demo_delivery = \<lparr>order_id = ''o1'', start_time = Some 0, duration = Some 10\<rparr>"

definition demo_edge :: edge where
  "demo_edge =
     \<lparr>from_id = ''A'', to_id = ''B'', edge_type = ''delivery'', active_orders = 1,
      deliveries = Some [demo_delivery]\<rparr>"

definition demo_particle :: particle where
  "demo_particle =
     \<lparr>p_edge = demo_edge, p_delivery = demo_delivery, deliveryIndex = 0, p_key = ''o1''\<rparr>"

definition demo_map :: network_map where
  "demo_map =
     (init_map demo_projection None)
       \<lparr>nodes := [demo_A, demo_B], edges := [demo_edge], currentTime := 5\<rparr>"

definition structural_edge :: "int \<Rightarrow> edge" where
  "structural_edge k =
     \<lparr>from_id = ''A'', to_id = ''B'', edge_type = ''structural'', active_orders = k,
      deliveries = None\<rparr>"

definition demo_snapshot :: snapshot where
  "demo_snapshot =
     \<lparr>s_time = Some 5, s_running = Some True, s_nodes = Some [demo_A, demo_B],
      s_edges = Some [demo_edge]\<rparr>"




text \<open>A node in London, outside the rectangle on which \<open>demo_projection\<close> is defined.\<close>

definition demo_london :: node where
  "demo_london = demo_node ''L'' ''distributor'' 0 51.5 []"

definition london_snapshot :: snapshot where
  "london_snapshot =
     \<lparr>s_time = Some 0, s_running = Some True, s_nodes = Some [demo_A, demo_london],
      s_edges = Some [\<lparr>from_id = ''A'', to_id = ''L'', edge_type = ''structural'',
                       active_orders = 0, deliveries = None\<rparr>]\<rparr>"

text \<open>
  A page with a hidden detail panel; the map after the first snapshot, a click on node
  \<open>A\<close> and the pointer entering it; a snapshot without \<open>A\<close>, and one in which \<open>A\<close> has a
  new production rate.
\<close>

definition hidden_panel :: details_panel where
  "hidden_panel =
     \<lparr>panel_display = ''none'', detail_node_name = [], detail_node_type = [],
      detail_node_location = [], detail_node_state = []\<rparr>"

definition demo_selected :: network_map where
  "demo_selected =
     showTooltip
       (state_of (selectNode
          (state_of (update (init_map demo_projection (Some hidden_panel)) demo_snapshot))
          (Some demo_A)))
       (110, 90) demo_A"

definition only_B_snapshot :: snapshot where
  "only_B_snapshot =
     \<lparr>s_time = Some 6, s_running = Some True, s_nodes = Some [demo_B], s_edges = Some []\<rparr>"

definition demo_A_faster :: node where
  "demo_A_faster =
     demo_node ''A'' ''manufacturing_center'' (- 115) 40 [(''production_rate'', JNum 20)]"

definition faster_snapshot :: snapshot where
  "faster_snapshot =
     \<lparr>s_time = Some 6, s_running = Some True, s_nodes = Some [demo_A_faster, demo_B],
      s_edges = Some [demo_edge]\<rparr>"



text \<open>A distributor with three supplier relationships and no other optional field.\<close>

definition demo_D :: node where
  "demo_D =
     demo_node ''D'' ''distributor'' (- 100) 35
       [(''supplier_relationships'',
         JRels [(''A'', \<lparr>on_time_rate = 0.95, orders_delivered = 2\<rparr>),
                (''B'', \<lparr>on_time_rate = 0.5, orders_delivered = 5\<rparr>),
                (''X'', \<lparr>on_time_rate = 0.8, orders_delivered = 3\<rparr>)])]"

section \<open>Properties of the flow particles\<close>

lemma demo_projection_A: "getNodeProjection demo_map ''A'' = (100, 100)"
  by (simp add: getNodeProjection_def demo_map_def init_map_def demo_A_def demo_B_def
        demo_node_def project_node_def demo_projection_def)

lemma demo_projection_B: "getNodeProjection demo_map ''B'' = (200, 100)"
  by (simp add: getNodeProjection_def demo_map_def init_map_def demo_A_def demo_B_def
        demo_node_def project_node_def demo_projection_def)

lemma demo_map_fields: "edges demo_map = [demo_edge]" "currentTime demo_map = 5"
  by (simp_all add: demo_map_def init_map_def)

lemma demo_particle_fields:
  "from_id (p_edge demo_particle) = ''A''" "to_id (p_edge demo_particle) = ''B''"
  "p_delivery demo_particle = demo_delivery" "deliveryIndex demo_particle = 0"
  by (simp_all add: demo_particle_def demo_edge_def)

lemma demo_delivery_times:
  "deliveryStartTime demo_delivery = 0" "deliveryDuration demo_delivery = 10"
  by (simp_all add: deliveryStartTime_def deliveryDuration_def demo_delivery_def or_num_def)


text \<open>
  C1, as stated, fails: a delivery with duration 0 starting at 0 is, at time 5, past
  \<open>start_time + duration\<close>, and its progress is one half, not 1.
\<close>

theorem flow_progress_zero_duration_counterexample:
  "\<not> (flow_progress 5 \<lparr>order_id = ''o1'', start_time = Some 0, duration = Some 0\<rparr> = 1
        \<longleftrightarrow> (0::real) + 0 \<le> 5)"
  by (simp add: flow_progress_def deliveryDuration_def deliveryStartTime_def or_num_def)

text \<open>
  C1, amended.  The progress of every particle lies between 0 and 1.  With the start
  time read as 0 when absent and the duration read as 10 when absent or zero: for a
  positive duration the progress is 0 exactly when \<open>t \<le> start\<close> and 1 exactly when
  \<open>t \<ge> start + duration\<close>; for a negative duration it is 0 at every time.
\<close>

theorem flow_progress_clamped:
  "0 \<le> flow_progress t d \<and> flow_progress t d \<le> 1 \<and>
   deliveryStartTime d = (case start_time d of None \<Rightarrow> 0 | Some s \<Rightarrow> s) \<and>
   deliveryDuration d = (case duration d of None \<Rightarrow> 10 | Some x \<Rightarrow> if x = 0 then 10 else x) \<and>
   (0 < deliveryDuration d \<longrightarrow>
      (flow_progress t d = 0 \<longleftrightarrow> t \<le> deliveryStartTime d) \<and>
      (flow_progress t d = 1 \<longleftrightarrow> deliveryStartTime d + deliveryDuration d \<le> t)) \<and>
   (deliveryDuration d < 0 \<longrightarrow> flow_progress t d = 0)"
proof -
  have bounds: "0 \<le> flow_progress t d \<and> flow_progress t d \<le> 1"
    by (simp add: flow_progress_def)
  have fields:
    "deliveryStartTime d = (case start_time d of None \<Rightarrow> 0 | Some s \<Rightarrow> s)"
    "deliveryDuration d = (case duration d of None \<Rightarrow> 10 | Some x \<Rightarrow> if x = 0 then 10 else x)"
    by (simp_all add: deliveryStartTime_def deliveryDuration_def or_num_def split: option.splits)
  have ends: "(flow_progress t d = 0 \<longleftrightarrow> t \<le> deliveryStartTime d) \<and>
      (flow_progress t d = 1 \<longleftrightarrow> deliveryStartTime d + deliveryDuration d \<le> t)"
    if "0 < deliveryDuration d"
    using that by (auto simp: flow_progress_def max_def min_def field_simps)
  have neg: "flow_progress t d = 0" if "deliveryDuration d < 0"
    using that by (simp add: flow_progress_def)
  show ?thesis using bounds fields ends neg by blast
qed

theorem flow_progress_clamped_witness:
  "0 < deliveryDuration demo_delivery \<and> flow_progress 5 demo_delivery = 1 / 2 \<and>
   flow_progress 0 demo_delivery = 0 \<and> flow_progress 10 demo_delivery = 1 \<and>
   flow_progress 12 demo_delivery = 1"
  using flow_progress_clamped [of 0 demo_delivery] flow_progress_clamped [of 10 demo_delivery]
    flow_progress_clamped [of 12 demo_delivery]
  by (simp add: demo_delivery_times) (simp add: flow_progress_def demo_delivery_times)



text \<open>
  C2, as stated, fails: the stagger offset of the particle of index 0 is \<open>-1\<close>, not 0.
  The single delivery with start 0 and duration 10 on the edge from (100, 100) to
  (200, 100), drawn at time 5, is at (150, 99), one pixel off the midpoint (150, 100).
\<close>

theorem flow_position_index0_counterexample:
  "offsetAmount (deliveryIndex demo_particle) = - 1 \<and>
   flow_position demo_map demo_particle = Some (150, 99) \<and>
   flow_position demo_map demo_particle \<noteq> Some ((100 + 200) / 2, (100 + 100) / 2)"
proof -
  have "flow_progress 5 demo_delivery = 1 / 2"
    by (simp add: flow_progress_def demo_delivery_times)
  then have "flow_position demo_map demo_particle = Some (150, 99)"
    by (simp add: demo_map_fields flow_position_def demo_projection_A demo_projection_B
          demo_particle_fields flow_xy_def atan2_def offsetAmount_def)
  then show ?thesis by (simp add: demo_particle_fields offsetAmount_def)
qed

text \<open>
  C2, amended.  For a particle whose edge end points project to points with nonzero x
  and whose duration (10 when absent or zero) is positive, the position is the point
  interpolated between the projected source and destination, displaced along the unit
  normal of the edge by the stagger offset \<open>(index mod 3) - 1\<close>: the interpolated point is
  the source at \<open>t = start\<close>, the destination at \<open>t = start + duration\<close> and the midpoint
  half way.  The offset is zero exactly for \<open>index mod 3 = 1\<close>; it is \<open>-1\<close> for index 0,
  whose particle is therefore never drawn on the source or the destination itself.
\<close>

theorem flow_position_endpoints:
  assumes "getNodeProjection m (from_id (p_edge p)) = (x1, y1)"
      and "getNodeProjection m (to_id (p_edge p)) = (x2, y2)"
      and "x1 \<noteq> 0" and "x2 \<noteq> 0"
      and "0 < deliveryDuration (p_delivery p)"
  shows "let s = deliveryStartTime (p_delivery p);
             dur = deliveryDuration (p_delivery p);
             perp = atan2 (y2 - y1) (x2 - x1) + pi / 2;
             k = offsetAmount (deliveryIndex p)
         in (currentTime m = s \<longrightarrow>
               flow_position m p = Some (x1 + cos perp * k, y1 + sin perp * k)) \<and>
            (currentTime m = s + dur \<longrightarrow>
               flow_position m p = Some (x2 + cos perp * k, y2 + sin perp * k)) \<and>
            (currentTime m = s + dur / 2 \<longrightarrow>
               flow_position m p
                 = Some ((x1 + x2) / 2 + cos perp * k, (y1 + y2) / 2 + sin perp * k)) \<and>
            (k = 0 \<longleftrightarrow> deliveryIndex p mod 3 = 1) \<and>
            (deliveryIndex p = 0 \<longrightarrow> k = - 1 \<and>
               (currentTime m = s \<longrightarrow> flow_position m p \<noteq> Some (x1, y1)) \<and>
               (currentTime m = s + dur \<longrightarrow> flow_position m p \<noteq> Some (x2, y2)))"
proof -
  define perp where "perp = atan2 (y2 - y1) (x2 - x1) + pi / 2"
  have unit: "cos perp \<noteq> 0 \<or> sin perp \<noteq> 0"
    using sin_zero_abs_cos_one [of perp] by auto
  have p0: "flow_progress (currentTime m) (p_delivery p) = 0"
    if "currentTime m = deliveryStartTime (p_delivery p)"
    using that assms(5) by (simp add: flow_progress_def)
  have p1: "flow_progress (currentTime m) (p_delivery p) = 1"
    if "currentTime m = deliveryStartTime (p_delivery p) + deliveryDuration (p_delivery p)"
    using that assms(5) by (simp add: flow_progress_def)
  have ph: "flow_progress (currentTime m) (p_delivery p) = 1 / 2"
    if "currentTime m = deliveryStartTime (p_delivery p) + deliveryDuration (p_delivery p) / 2"
    using that assms(5) by (simp add: flow_progress_def)
  show ?thesis
    using assms(1-4) unit p0 p1 ph
    unfolding perp_def
    by (auto simp: Let_def flow_position_def flow_xy_def offsetAmount_def field_simps)
qed

theorem flow_position_endpoints_witness:
  "getNodeProjection demo_map (from_id (p_edge demo_particle)) = (100, 100) \<and>
   getNodeProjection demo_map (to_id (p_edge demo_particle)) = (200, 100) \<and>
   (100::real) \<noteq> 0 \<and> (200::real) \<noteq> 0 \<and> 0 < deliveryDuration (p_delivery demo_particle) \<and>
   currentTime demo_map
     = deliveryStartTime (p_delivery demo_particle)
         + deliveryDuration (p_delivery demo_particle) / 2 \<and>
   flow_position demo_map demo_particle = Some (150, 99)"
proof -
  have h1: "getNodeProjection demo_map (from_id (p_edge demo_particle)) = (100, 100)"
    by (simp add: demo_particle_fields demo_projection_A)
  have h2: "getNodeProjection demo_map (to_id (p_edge demo_particle)) = (200, 100)"
    by (simp add: demo_particle_fields demo_projection_B)
  have h5: "0 < deliveryDuration (p_delivery demo_particle)"
    by (simp add: demo_particle_fields demo_delivery_times)
  show ?thesis
    using flow_position_endpoints [OF h1 h2 _ _ h5] h1 h2 h5
    by (simp add: Let_def demo_particle_fields demo_delivery_times demo_map_fields
          atan2_def offsetAmount_def)
qed

section \<open>Properties of the node and edge attributes\<close>












text \<open>
  C8, evaluated for a structural edge with two active orders: color and width are the
  fixed ones, but the opacity is the higher level 0.6, where the structural edge with no
  active order has 0.2.  The width callback tests for the structural category before it
  looks at the activity count; the opacity callback has no such test.
\<close>

theorem structural_edge_opacity_follows_activity:
  "edge_stroke (structural_edge 2) = ''rgba(100, 100, 100, 0.2)'' \<and>
   edge_stroke_width (structural_edge 2) = 1 \<and>
   edge_stroke_opacity (structural_edge 2) = 0.6 \<and>
   edge_stroke_opacity (structural_edge 0) = 0.2"
  by (simp add: structural_edge_def edge_stroke_def edge_stroke_width_def
        edge_stroke_opacity_def)

section \<open>Properties of the keyed join\<close>

lemma bind_data_Cons:
  "bind_data key (d # ds) m =
     (case m (key d) of
        Some n \<Rightarrow> ((d, Some n) # fst (bind_data key ds (m(key d := None))),
                   snd (bind_data key ds (m(key d := None))))
      | None \<Rightarrow> ((d, None) # fst (bind_data key ds m), snd (bind_data key ds m)))"
  by (simp add: split_beta split: option.splits)

lemma slots_bindKey:
  "slots (bindKey key els data) = fst (bind_data key data (index_group key els Map.empty))"
  by (simp add: bindKey_def Let_def split_beta)



lemma bind_data_fst: "map fst (fst (bind_data key ds m)) = ds"
  by (induction ds arbitrary: m)
     (simp_all add: bind_data_Cons del: bind_data.simps(2) split: option.splits)





lemma merged_bindKey: "merged (bindKey key els data) = data"
  by (simp add: merged_def slots_bindKey bind_data_fst)




section \<open>One pass of each renderer\<close>

lemma renderOrderFlows_eq:
  "renderOrderFlows m =
     m\<lparr>flow_circles := deliveryParticles (edges m),
       dom_ops := dom_ops m
         @ created_ops Flows p_key (bindKey p_key (flow_circles m) (deliveryParticles (edges m)))
         @ removed_ops Flows p_key (bindKey p_key (flow_circles m) (deliveryParticles (edges m)))\<rparr>"
  by (simp add: renderOrderFlows_def Let_def merged_bindKey)

lemma renderEdges_eq:
  "renderEdges m =
     m\<lparr>edge_lines := edges m,
       flow_circles := deliveryParticles (edges m),
       dom_ops := dom_ops m
         @ created_ops Lines edge_key (bindKey edge_key (edge_lines m) (edges m))
         @ removed_ops Lines edge_key (bindKey edge_key (edge_lines m) (edges m))
         @ created_ops Flows p_key (bindKey p_key (flow_circles m) (deliveryParticles (edges m)))
         @ removed_ops Flows p_key (bindKey p_key (flow_circles m) (deliveryParticles (edges m)))\<rparr>"
  by (simp add: renderEdges_def renderOrderFlows_eq Let_def merged_bindKey)

lemma renderLabels_eq:
  "renderLabels m =
     (if unprojectable m
      then Threw TypeError
             (m\<lparr>labels := nodes m @ exit_sel (bindKey node_id (labels m) (nodes m)),
                dom_ops := dom_ops m
                  @ created_ops Labels node_id (bindKey node_id (labels m) (nodes m))\<rparr>)
      else Done
             (m\<lparr>labels := nodes m,
                dom_ops := dom_ops m
                  @ created_ops Labels node_id (bindKey node_id (labels m) (nodes m))
                  @ removed_ops Labels node_id (bindKey node_id (labels m) (nodes m))\<rparr>))"
  by (simp add: renderLabels_def Let_def merged_bindKey unprojectable_def project_node_def)

lemma renderNodes_eq:
  "renderNodes m =
     (if unprojectable m
      then Threw TypeError
             (m\<lparr>node_groups := nodes m @ exit_sel (bindKey node_id (node_groups m) (nodes m)),
                dom_ops := dom_ops m
                  @ created_ops NodeGroups node_id (bindKey node_id (node_groups m) (nodes m))\<rparr>)
      else Done
             (m\<lparr>node_groups := nodes m,
                labels := nodes m,
                dom_ops := dom_ops m
                  @ created_ops NodeGroups node_id (bindKey node_id (node_groups m) (nodes m))
                  @ removed_ops NodeGroups node_id (bindKey node_id (node_groups m) (nodes m))
                  @ created_ops Labels node_id (bindKey node_id (labels m) (nodes m))
                  @ removed_ops Labels node_id (bindKey node_id (labels m) (nodes m))\<rparr>))"
  by (simp add: renderNodes_def renderLabels_eq Let_def merged_bindKey unprojectable_def
        project_node_def)

lemma updateTooltip_fields:
  "nodes (updateTooltip m n) = nodes m" "edges (updateTooltip m n) = edges m"
  "projection (updateTooltip m n) = projection m"
  "hoveredNode (updateTooltip m n) = hoveredNode m"
  "selectedNode (updateTooltip m n) = selectedNode m"
  "edge_lines (updateTooltip m n) = edge_lines m"
  "flow_circles (updateTooltip m n) = flow_circles m"
  "node_groups (updateTooltip m n) = node_groups m"
  "labels (updateTooltip m n) = labels m"
  "node_details (updateTooltip m n) = node_details m"
  "dom_ops (updateTooltip m n) = dom_ops m"
  by (simp_all add: updateTooltip_def split: option.splits)

lemma updateDetailsPanel_fields:
  "nodes (updateDetailsPanel m n) = nodes m" "edges (updateDetailsPanel m n) = edges m"
  "projection (updateDetailsPanel m n) = projection m"
  "hoveredNode (updateDetailsPanel m n) = hoveredNode m"
  "selectedNode (updateDetailsPanel m n) = selectedNode m"
  "edge_lines (updateDetailsPanel m n) = edge_lines m"
  "flow_circles (updateDetailsPanel m n) = flow_circles m"
  "node_groups (updateDetailsPanel m n) = node_groups m"
  "labels (updateDetailsPanel m n) = labels m"
  "tooltip (updateDetailsPanel m n) = tooltip m"
  "dom_ops (updateDetailsPanel m n) = dom_ops m"
  by (simp_all add: updateDetailsPanel_def split: option.splits)

lemma refresh_hover_fields:
  "nodes (refresh_hover m) = nodes m" "edges (refresh_hover m) = edges m"
  "projection (refresh_hover m) = projection m"
  "hoveredNode (refresh_hover m) = hoveredNode m"
  "selectedNode (refresh_hover m) = selectedNode m"
  "edge_lines (refresh_hover m) = edge_lines m"
  "flow_circles (refresh_hover m) = flow_circles m"
  "node_groups (refresh_hover m) = node_groups m"
  "labels (refresh_hover m) = labels m"
  "node_details (refresh_hover m) = node_details m"
  "dom_ops (refresh_hover m) = dom_ops m"
  by (simp_all add: refresh_hover_def updateTooltip_fields split: option.splits)

lemma refresh_selection_fields:
  "nodes (refresh_selection m) = nodes m" "edges (refresh_selection m) = edges m"
  "projection (refresh_selection m) = projection m"
  "hoveredNode (refresh_selection m) = hoveredNode m"
  "selectedNode (refresh_selection m) = selectedNode m"
  "edge_lines (refresh_selection m) = edge_lines m"
  "flow_circles (refresh_selection m) = flow_circles m"
  "node_groups (refresh_selection m) = node_groups m"
  "labels (refresh_selection m) = labels m"
  "tooltip (refresh_selection m) = tooltip m"
  "dom_ops (refresh_selection m) = dom_ops m"
  by (simp_all add: refresh_selection_def updateDetailsPanel_fields split: option.splits)

lemma refresh_selection_details:
  "node_details (refresh_selection m) =
     (case selectedNode m of
        None \<Rightarrow> node_details m
      | Some s \<Rightarrow>
          (case find (\<lambda>n. node_id n = node_id s) (nodes m) of
             None \<Rightarrow> node_details m
           | Some n \<Rightarrow> map_option (\<lambda>_. panel_content (nodes m) n) (node_details m)))"
  by (simp add: refresh_selection_def updateDetailsPanel_def split: option.splits)


lemma selectNode_fields:
  "selectedNode (state_of (selectNode m n)) = n"
  "hoveredNode (state_of (selectNode m n)) = hoveredNode m"
  "nodes (state_of (selectNode m n)) = nodes m"
  "projection (state_of (selectNode m n)) = projection m"
  "tooltip (state_of (selectNode m n)) = tooltip m"
  by (simp_all add: selectNode_def renderNodes_eq unprojectable_def project_node_def
        updateDetailsPanel_fields hideDetailsPanel_def split: option.splits)

lemma selectNode_details:
  "node_details (state_of (selectNode m (Some x))) =
     (if unprojectable m then node_details m
      else map_option (\<lambda>_. panel_content (nodes m) x) (node_details m))"
  by (simp add: selectNode_def renderNodes_eq unprojectable_def project_node_def
        updateDetailsPanel_def split: option.splits)

lemma showTooltip_fields:
  "hoveredNode (showTooltip m page n) = Some n"
  "selectedNode (showTooltip m page n) = selectedNode m"
  "nodes (showTooltip m page n) = nodes m"
  "projection (showTooltip m page n) = projection m"
  "node_details (showTooltip m page n) = node_details m"
  "tooltip (showTooltip m page n)
     = Some \<lparr>tip_html = tooltip_content (nodes m) n, tip_left = fst page + 10,
             tip_top = snd page - 10\<rparr>"
  by (simp_all add: showTooltip_def updateTooltip_def)

section \<open>The effect of applying a snapshot\<close>

lemma unprojectable_cong:
  "nodes m' = nodes m \<Longrightarrow> projection m' = projection m \<Longrightarrow>
   unprojectable m' = unprojectable m"
  by (simp add: unprojectable_def project_node_def)

lemma unprojectable_renderEdges: "unprojectable (renderEdges m) = unprojectable m"
  by (rule unprojectable_cong) (simp_all add: renderEdges_eq)


lemma update_eq:
  "update m st =
     (if unprojectable (store_snapshot m st)
      then Threw TypeError
        ((renderEdges (store_snapshot m st))
           \<lparr>node_groups := snapshot_nodes st
              @ exit_sel (bindKey node_id (node_groups m) (snapshot_nodes st)),
            dom_ops := dom_ops (renderEdges (store_snapshot m st))
              @ created_ops NodeGroups node_id
                  (bindKey node_id (node_groups m) (snapshot_nodes st))\<rparr>)
      else Done (refresh_selection (refresh_hover
        ((renderEdges (store_snapshot m st))
           \<lparr>node_groups := snapshot_nodes st,
            labels := snapshot_nodes st,
            dom_ops := dom_ops (renderEdges (store_snapshot m st))
              @ created_ops NodeGroups node_id
                  (bindKey node_id (node_groups m) (snapshot_nodes st))
              @ removed_ops NodeGroups node_id
                  (bindKey node_id (node_groups m) (snapshot_nodes st))
              @ created_ops Labels node_id (bindKey node_id (labels m) (snapshot_nodes st))
              @ removed_ops Labels node_id
                  (bindKey node_id (labels m) (snapshot_nodes st))\<rparr>))))"
proof -
  have f: "nodes (renderEdges (store_snapshot m st)) = snapshot_nodes st"
    "node_groups (renderEdges (store_snapshot m st)) = node_groups m"
    "labels (renderEdges (store_snapshot m st)) = labels m"
    by (simp_all add: renderEdges_eq store_snapshot_def)
  show ?thesis
    by (simp add: update_def renderNodes_eq unprojectable_renderEdges f)
qed

lemma threw_update: "threw (update m st) = unprojectable (store_snapshot m st)"
  by (simp add: update_eq)

lemma update_fields:
  "nodes (state_of (update m st)) = snapshot_nodes st"
  "edges (state_of (update m st)) = snapshot_edges st"
  "projection (state_of (update m st)) = projection m"
  "hoveredNode (state_of (update m st)) = hoveredNode m"
  "selectedNode (state_of (update m st)) = selectedNode m"
  "edge_lines (state_of (update m st)) = snapshot_edges st"
  "flow_circles (state_of (update m st)) = deliveryParticles (snapshot_edges st)"
  by (simp_all add: update_eq refresh_selection_fields refresh_hover_fields renderEdges_eq
        store_snapshot_def)

lemma update_node_layers:
  "node_groups (state_of (update m st)) =
     (if unprojectable (store_snapshot m st)
      then snapshot_nodes st @ exit_sel (bindKey node_id (node_groups m) (snapshot_nodes st))
      else snapshot_nodes st)"
  "labels (state_of (update m st)) =
     (if unprojectable (store_snapshot m st) then labels m else snapshot_nodes st)"
  by (simp_all add: update_eq refresh_selection_fields refresh_hover_fields renderEdges_eq
        store_snapshot_def)


lemma update_details:
  "node_details (state_of (update m st)) =
     (if unprojectable (store_snapshot m st) then node_details m
      else (case selectedNode m of
              None \<Rightarrow> node_details m
            | Some s \<Rightarrow>
                (case find (\<lambda>n. node_id n = node_id s) (snapshot_nodes st) of
                   None \<Rightarrow> node_details m
                 | Some n \<Rightarrow>
                     map_option (\<lambda>_. panel_content (snapshot_nodes st) n) (node_details m))))"
  by (simp add: update_eq refresh_selection_details refresh_hover_fields renderEdges_eq
        store_snapshot_def cong: option.case_cong)


lemma demo_unprojectable:
  "projection m = demo_projection \<Longrightarrow> set (nodes m) \<subseteq> {demo_A, demo_B, demo_A_faster} \<Longrightarrow>
   \<not> unprojectable m"
  by (auto simp: unprojectable_def list_ex_iff project_node_def demo_A_def demo_B_def
        demo_A_faster_def demo_node_def demo_projection_def)

lemma init_map_layers:
  "dom_ops (init_map proj panel) = []" "edge_lines (init_map proj panel) = []"
  "flow_circles (init_map proj panel) = []" "node_groups (init_map proj panel) = []"
  "labels (init_map proj panel) = []"
  by (simp_all add: init_map_def)

lemma demo_snapshot_fields:
  "snapshot_nodes demo_snapshot = [demo_A, demo_B]"
  "snapshot_edges demo_snapshot = [demo_edge]"
  "snapshot_nodes only_B_snapshot = [demo_B]"
  "snapshot_edges only_B_snapshot = []"
  "snapshot_nodes faster_snapshot = [demo_A_faster, demo_B]"
  by (simp_all add: snapshot_nodes_def snapshot_edges_def demo_snapshot_def
        only_B_snapshot_def faster_snapshot_def)

section \<open>The particle set\<close>








section \<open>Applying a snapshot twice\<close>








section \<open>Coordinates that do not project\<close>

text \<open>
  C4, evaluated on a snapshot with a node in London, for which the projection has no
  value, and an edge to it.  The edge is drawn, its end point at London falling back to
  (0, 0); but rendering the nodes throws a TypeError, and the labels, drawn after the
  node groups, are never created.
\<close>

theorem unprojectable_node_throws:
  "threw (update (init_map demo_projection None) london_snapshot) \<and>
   labels (state_of (update (init_map demo_projection None) london_snapshot)) = [] \<and>
   project_node (state_of (update (init_map demo_projection None) london_snapshot))
     demo_london = None \<and>
   getNodeProjection (state_of (update (init_map demo_projection None) london_snapshot)) ''L''
     = (0, 0) \<and>
   map edge_key (edge_lines (state_of (update (init_map demo_projection None) london_snapshot)))
     = [''structural-A-L''] \<and>
   map (edge_x2y2 (state_of (update (init_map demo_projection None) london_snapshot)))
     (edge_lines (state_of (update (init_map demo_projection None) london_snapshot)))
     = [(0, 0)]"
proof -
  have u: "unprojectable (store_snapshot (init_map demo_projection None) london_snapshot)"
    by (simp add: unprojectable_def store_snapshot_def snapshot_nodes_def london_snapshot_def
          project_node_def demo_A_def demo_london_def demo_node_def demo_projection_def
          init_map_def)
  have p: "project_node (state_of (update (init_map demo_projection None) london_snapshot))
             demo_london = None"
    by (simp add: project_node_def update_fields init_map_def demo_london_def demo_node_def
          demo_projection_def)
  have g: "getNodeProjection
             (state_of (update (init_map demo_projection None) london_snapshot)) ''L'' = (0, 0)"
    using p by (simp add: getNodeProjection_def update_fields snapshot_nodes_def
          london_snapshot_def demo_A_def demo_node_def demo_london_def)
  show ?thesis
    using u p g
    by (simp add: threw_update update_node_layers update_fields init_map_layers
          snapshot_edges_def london_snapshot_def edge_key_def edge_x2y2_def)
qed

section \<open>Hover and selection across snapshots\<close>

lemma demo_selected_fields:
  "selectedNode demo_selected = Some demo_A"
  "hoveredNode demo_selected = Some demo_A"
  "projection demo_selected = demo_projection"
  "node_details demo_selected = Some (panel_content [demo_A, demo_B] demo_A)"
  "tooltip demo_selected
     = Some \<lparr>tip_html = tooltip_content [demo_A, demo_B] demo_A, tip_left = 120,
             tip_top = 80\<rparr>"
proof -
  let ?m0 = "init_map demo_projection (Some hidden_panel)"
  let ?m1 = "state_of (update ?m0 demo_snapshot)"
  have p0: "projection ?m0 = demo_projection" "selectedNode ?m0 = None"
    "node_details ?m0 = Some hidden_panel"
    by (simp_all add: init_map_def)
  have u0: "\<not> unprojectable (store_snapshot ?m0 demo_snapshot)"
    by (rule demo_unprojectable) (simp_all add: store_snapshot_def demo_snapshot_fields p0)
  have d1: "node_details ?m1 = Some hidden_panel"
    by (simp add: update_details u0 p0)
  have u1: "\<not> unprojectable ?m1"
    by (rule demo_unprojectable) (simp_all add: update_fields demo_snapshot_fields p0)
  show "selectedNode demo_selected = Some demo_A" "hoveredNode demo_selected = Some demo_A"
    "projection demo_selected = demo_projection"
    "node_details demo_selected = Some (panel_content [demo_A, demo_B] demo_A)"
    "tooltip demo_selected
       = Some \<lparr>tip_html = tooltip_content [demo_A, demo_B] demo_A, tip_left = 120,
               tip_top = 80\<rparr>"
    by (simp_all add: demo_selected_def showTooltip_fields selectNode_fields
          selectNode_details update_fields u1 d1 demo_snapshot_fields p0)
qed




section \<open>Supplier lists and defaults\<close>

lemma detail_suppliers_append:
  "detail_suppliers (xs @ ys) = detail_suppliers xs @ detail_suppliers ys"
  by (induction xs rule: detail_suppliers.induct) simp_all

lemma tip_suppliers_append: "tip_suppliers (xs @ ys) = tip_suppliers xs @ tip_suppliers ys"
  by (induction xs rule: tip_suppliers.induct) simp_all

lemma detail_suppliers_state_items: "detail_suppliers (state_items es) = []"
  by (induction es rule: state_items.induct) (simp split: js_value.splits)+

lemma detail_suppliers_map:
  "detail_suppliers (map (\<lambda>(sid, mt). DetSupplier (f sid) (g mt) (h mt) (k mt)) xs)
     = map (\<lambda>(sid, mt). (f sid, g mt, h mt, k mt)) xs"
  by (induction xs) auto

lemma tip_suppliers_map:
  "tip_suppliers (map (\<lambda>(sid, mt). TipSupplier (f sid) (g mt)) xs)
     = map (\<lambda>(sid, mt). (f sid, g mt)) xs"
  by (induction xs) auto

lemma distributor_detail_suppliers:
  assumes "node_type node = ''distributor''"
  shows "detail_suppliers (details_state ns node)
     = map (\<lambda>(sid, mt). (supplierName ns sid, on_time_rate mt * 100,
                          supplier_color (on_time_rate mt), orders_delivered mt))
         (sortedSuppliers node)"
  using assms
  by (simp add: details_state_def detail_suppliers_append detail_suppliers_state_items
        detail_suppliers_map Let_def)

lemma distributor_tip_suppliers:
  assumes "node_type node = ''distributor''"
  shows "tip_suppliers (tooltip_content ns node)
     = map (\<lambda>(sid, mt). (supplierName ns sid, on_time_rate mt * 100))
         (take 2 (sortedSuppliers node))"
  using assms
  by (simp add: tooltip_content_def tip_suppliers_append tip_suppliers_map Let_def
        split: option.splits)

lemma demo_D_sorted:
  "sortedSuppliers demo_D =
     [(''B'', \<lparr>on_time_rate = 0.5, orders_delivered = 5\<rparr>),
      (''X'', \<lparr>on_time_rate = 0.8, orders_delivered = 3\<rparr>),
      (''A'', \<lparr>on_time_rate = 0.95, orders_delivered = 2\<rparr>)]"
  by (simp add: sortedSuppliers_def relationships_def rels_field_def demo_D_def demo_node_def)

lemma demo_D_names:
  "supplierName [demo_A, demo_B, demo_D] ''A'' = ''A''"
  "supplierName [demo_A, demo_B, demo_D] ''B'' = ''B''"
  "supplierName [demo_A, demo_B, demo_D] ''X'' = ''X''"
  by (simp_all add: supplierName_def demo_A_def demo_B_def demo_D_def demo_node_def)

text \<open>
  C9, as stated, fails for the detail panel: for a distributor with three supplier
  relationships the panel lists all three, ranked; only the tooltip stops after two.
\<close>

theorem detail_panel_lists_all_suppliers_counterexample:
  "node_type demo_D = ''distributor'' \<and>
   detail_suppliers (details_state [demo_A, demo_B, demo_D] demo_D)
     = [(''B'', 50, ''#ef4444'', 5), (''X'', 80, ''#f59e0b'', 3), (''A'', 95, ''#10b981'', 2)] \<and>
   tip_suppliers (tooltip_content [demo_A, demo_B, demo_D] demo_D) = [(''B'', 50), (''X'', 80)]"
proof -
  have ty: "node_type demo_D = ''distributor''" by (simp add: demo_D_def demo_node_def)
  show ?thesis
    by (simp add: ty distributor_detail_suppliers distributor_tip_suppliers demo_D_sorted
          demo_D_names supplier_color_def)
qed

text \<open>
  C9, amended.  For a distributor, the supplier relationships are ranked by orders
  delivered, most first; the detail panel lists every one of them and the tooltip the
  first two, each under the city of the node of that identifier in the node collection
  of the map at the time of rendering, or under the identifier itself when no node has
  it.  A missing revenue or cost field counts as 0, a missing sourcing policy as
  \<^verbatim>\<open>nearest_neighbor\<close>, missing relationships as none, for which the panel and the
  tooltip show their no-history entry; the content is built in every case.
\<close>

theorem supplier_ranking_and_defaults:
  "(node_type node = ''distributor'' \<longrightarrow>
      detail_suppliers (details_state ns node)
        = map (\<lambda>(sid, mt). (supplierName ns sid, on_time_rate mt * 100,
                             supplier_color (on_time_rate mt), orders_delivered mt))
            (sortedSuppliers node) \<and>
      tip_suppliers (tooltip_content ns node)
        = map (\<lambda>(sid, mt). (supplierName ns sid, on_time_rate mt * 100))
            (take 2 (sortedSuppliers node)) \<and>
      length (detail_suppliers (details_state ns node)) = length (relationships node) \<and>
      length (tip_suppliers (tooltip_content ns node)) = min 2 (length (relationships node)) \<and>
      (rels_field node = None \<longrightarrow>
         DetNoSuppliers \<in> set (details_state ns node) \<and>
         TipNoHistory \<in> set (tooltip_content ns node))) \<and>
   sorted (map (\<lambda>e. - orders_delivered (snd e)) (sortedSuppliers node)) \<and>
   set (sortedSuppliers node) = set (relationships node) \<and>
   supplierName ns sid
     = (case find (\<lambda>n. node_id n = sid) ns of
          Some n \<Rightarrow> city (node_location n) | None \<Rightarrow> sid) \<and>
   (node_details m \<noteq> None \<longrightarrow>
      node_details (updateDetailsPanel m node) = Some (panel_content (nodes m) node)) \<and>
   detail_node_state (panel_content (nodes m) node) = details_state (nodes m) node \<and>
   (num_field node ''total_revenue'' = None \<longrightarrow> revenue node = 0 \<and> profitMargin node = 0) \<and>
   (num_field node ''total_production_costs'' = None \<and>
    num_field node ''total_rate_change_costs'' = None \<longrightarrow> totalCosts node = 0) \<and>
   (sourcing_policy_type node = None \<longrightarrow> sourcingPolicy node = ''nearest_neighbor'') \<and>
   (rels_field node = None \<longrightarrow> relationships node = [])"
proof -
  have len: "length (sortedSuppliers node) = length (relationships node)"
    by (simp add: sortedSuppliers_def)
  have srt: "sorted (map (\<lambda>e. - orders_delivered (snd e)) (sortedSuppliers node))"
    unfolding sortedSuppliers_def by (rule sorted_sort_key)
  have st: "set (sortedSuppliers node) = set (relationships node)"
    by (simp add: sortedSuppliers_def)
  have none: "DetNoSuppliers \<in> set (details_state ns node) \<and>
         TipNoHistory \<in> set (tooltip_content ns node)"
    if "node_type node = ''distributor''" "rels_field node = None"
    using that
    by (simp add: details_state_def tooltip_content_def sortedSuppliers_def relationships_def
          split: option.splits)
  have defaults:
    "num_field node ''total_revenue'' = None \<longrightarrow> revenue node = 0 \<and> profitMargin node = 0"
    "num_field node ''total_production_costs'' = None \<and>
      num_field node ''total_rate_change_costs'' = None \<longrightarrow> totalCosts node = 0"
    "sourcing_policy_type node = None \<longrightarrow> sourcingPolicy node = ''nearest_neighbor''"
    "rels_field node = None \<longrightarrow> relationships node = []"
    by (simp_all add: revenue_def profitMargin_def totalCosts_def sourcingPolicy_def
          relationships_def or_num_def or_str_def)
  have panel: "node_details m \<noteq> None \<longrightarrow>
      node_details (updateDetailsPanel m node) = Some (panel_content (nodes m) node)"
    "detail_node_state (panel_content (nodes m) node) = details_state (nodes m) node"
    by (auto simp: updateDetailsPanel_def panel_content_def)
  show ?thesis
    using distributor_detail_suppliers [of node ns] distributor_tip_suppliers [of node ns]
      len srt st none defaults panel
    by (simp add: supplierName_def min.commute)
qed

theorem supplier_ranking_and_defaults_witness:
  "node_type demo_london = ''distributor'' \<and> rels_field demo_london = None \<and>
   num_field demo_london ''total_revenue'' = None \<and>
   num_field demo_london ''total_production_costs'' = None \<and>
   num_field demo_london ''total_rate_change_costs'' = None \<and>
   sourcing_policy_type demo_london = None \<and> node_details demo_selected \<noteq> None \<and>
   details_state (nodes demo_selected) demo_london
     = [DetSourcing, DetPolicy ''nearest_neighbor'', DetNoSuppliers] \<and>
   node_details (updateDetailsPanel demo_selected demo_london)
     = Some (panel_content (nodes demo_selected) demo_london) \<and>
   revenue demo_london = 0 \<and> totalCosts demo_london = 0 \<and>
   TipNoHistory \<in> set (tooltip_content (nodes demo_selected) demo_london)"
proof -
  have h: "node_type demo_london = ''distributor''" "rels_field demo_london = None"
    "num_field demo_london ''total_revenue'' = None"
    "num_field demo_london ''total_production_costs'' = None"
    "num_field demo_london ''total_rate_change_costs'' = None"
    "sourcing_policy_type demo_london = None"
    by (simp_all add: demo_london_def demo_node_def rels_field_def num_field_def)
  have d: "node_details demo_selected \<noteq> None" by (simp add: demo_selected_fields)
  have s: "details_state (nodes demo_selected) demo_london
     = [DetSourcing, DetPolicy ''nearest_neighbor'', DetNoSuppliers]"
    using h by (simp add: details_state_def sortedSuppliers_def relationships_def
          sourcingPolicy_def or_str_def demo_london_def demo_node_def)
  show ?thesis
    using supplier_ranking_and_defaults
      [of demo_london "nodes demo_selected" "''A''" demo_selected] h d s
    by simp
qed

end
